theory Spec2Isabelle
  imports Complex_Main "HOL-Library.Word"
begin

unbundle bit_operations_syntax

section \<open>Python values and errors\<close>

text \<open>
  The Python values that reach the functions of \<^verbatim>\<open>txoauth2/imp.py\<close>: \<^verbatim>\<open>None\<close>, text,
  integers and lists. Text is a list of 8-bit characters. Every exception the code can
  raise is a value of \<open>error\<close>; a raising call returns \<open>Inl\<close> of it.
\<close>

datatype pyval = PNone | PStr string | PInt int | PList "pyval list"

datatype error =
    KeyError string
  | ValueError string
  | TypeError string
  | AttributeError string
  | NoSectionError string
  | NoOptionError string string
  | DuplicateSectionError string
  | OSError string

section \<open>DictTokenStorage: the methods, on the dict that \<open>self._tokens\<close> denotes\<close>

text \<open>
  One entry of the token table, the dict literal of \<^verbatim>\<open>store\<close> (imp.py, lines 113 to 117).
  \<open>expireTime = None\<close> is Python's \<^verbatim>\<open>None\<close>: the token never expires. Points in time are
  the finite numbers \<^verbatim>\<open>time.time()\<close> returns and callers pass, compared as numbers.
\<close>

record token_entry =
  data :: pyval
  expireTime :: "real option"
  scope :: "pyval list"

type_synonym token_table = "string \<rightharpoonup> token_entry"

text \<open>
  Every method takes \<open>now\<close>, the value \<^verbatim>\<open>time.time()\<close> returns during the call, and the
  table, and returns its result together with the table it leaves behind: an exception
  does not undo a deletion made before it was raised.
\<close>

text \<open>\<^verbatim>\<open>_checkExpire\<close> (lines 119 to 130). The subscript \<^verbatim>\<open>self._tokens[token]\<close> raises
  \<^verbatim>\<open>KeyError\<close> for an absent token.\<close>

definition checkExpire ::
  "real \<Rightarrow> token_table \<Rightarrow> string \<Rightarrow> (error + bool) \<times> token_table" where
  "checkExpire now tokens token =
     (case tokens token of
        None \<Rightarrow> (Inl (KeyError token), tokens)
      | Some entry \<Rightarrow>
          (case expireTime entry of
             None \<Rightarrow> (Inr False, tokens)
           | Some t \<Rightarrow>
               if now > t then (Inr True, tokens(token := None))
               else (Inr False, tokens)))"

text \<open>\<^verbatim>\<open>contains\<close> (lines 89 to 92).\<close>

definition contains ::
  "real \<Rightarrow> token_table \<Rightarrow> string \<Rightarrow> (error + bool) \<times> token_table" where
  "contains now tokens token =
     (if tokens token = None then (Inr False, tokens)
      else
        (case checkExpire now tokens token of
           (Inl e, tokens') \<Rightarrow> (Inl e, tokens')
         | (Inr expired, tokens') \<Rightarrow> (Inr (\<not> expired), tokens')))"

text \<open>The \<^verbatim>\<open>for\<close> loop of \<^verbatim>\<open>hasAccess\<close> (lines 97 to 100); each iteration reads
  \<^verbatim>\<open>self._tokens[token]['scope']\<close> again.\<close>

fun hasAccess_loop :: "token_table \<Rightarrow> string \<Rightarrow> pyval list \<Rightarrow> error + bool" where
  "hasAccess_loop tokens token [] = Inr True"
| "hasAccess_loop tokens token (scopeItem # rest) =
     (case tokens token of
        None \<Rightarrow> Inl (KeyError token)
      | Some entry \<Rightarrow>
          if scopeItem \<notin> set (scope entry) then Inr False
          else hasAccess_loop tokens token rest)"

text \<open>\<^verbatim>\<open>hasAccess\<close> (lines 94 to 100).\<close>

definition hasAccess ::
  "real \<Rightarrow> token_table \<Rightarrow> string \<Rightarrow> pyval list \<Rightarrow> (error + bool) \<times> token_table" where
  "hasAccess now tokens token scope_req =
     (case checkExpire now tokens token of
        (Inl e, tokens') \<Rightarrow> (Inl e, tokens')
      | (Inr expired, tokens') \<Rightarrow>
          if expired then (Inl (KeyError ''Token expired''), tokens')
          else (hasAccess_loop tokens' token scope_req, tokens'))"

text \<open>\<^verbatim>\<open>getTokenData\<close> (lines 102 to 104). The result of \<^verbatim>\<open>_checkExpire\<close> is dropped;
  the subscripts of the \<^verbatim>\<open>return\<close> line read the table it left behind.\<close>

definition getTokenData ::
  "real \<Rightarrow> token_table \<Rightarrow> string \<Rightarrow> (error + pyval list \<times> pyval) \<times> token_table" where
  "getTokenData now tokens token =
     (case checkExpire now tokens token of
        (Inl e, tokens') \<Rightarrow> (Inl e, tokens')
      | (Inr expired, tokens') \<Rightarrow>
          (case tokens' token of
             None \<Rightarrow> (Inl (KeyError token), tokens')
           | Some entry \<Rightarrow> (Inr (scope entry, data entry), tokens')))"

text \<open>\<^verbatim>\<open>store\<close> (lines 106 to 117). \<open>client\<close> is not used by the body.\<close>

definition store ::
  "real \<Rightarrow> token_table \<Rightarrow> pyval \<Rightarrow> 'c \<Rightarrow> pyval \<Rightarrow> pyval \<Rightarrow> real option
     \<Rightarrow> (error + unit) \<times> token_table" where
  "store now tokens token client scope_arg additionalData expire =
     (case token of
        PStr tok \<Rightarrow>
          (let scope_list = (case scope_arg of PList xs \<Rightarrow> xs | _ \<Rightarrow> [scope_arg]) in
           case expire of
             None \<Rightarrow>
               (Inr (), tokens(tok \<mapsto>
                  \<lparr>data = additionalData, expireTime = None, scope = scope_list\<rparr>))
           | Some t \<Rightarrow>
               if t \<le> now then (Inr (), tokens)
               else
                 (Inr (), tokens(tok \<mapsto>
                    \<lparr>data = additionalData, expireTime = Some t, scope = scope_list\<rparr>)))
      | _ \<Rightarrow> (Inl (ValueError ''Token parameter is not a string''), tokens))"

text \<open>A record has expired at \<open>now\<close> when it has an expiry time and \<open>now\<close> is later.\<close>

definition expired_at :: "real \<Rightarrow> token_entry \<Rightarrow> bool" where
  "expired_at now entry = (case expireTime entry of None \<Rightarrow> False | Some t \<Rightarrow> now > t)"

section \<open>DictTokenStorage: instances and the class attribute\<close>

text \<open>
  \<^verbatim>\<open>_tokens = {}\<close> (line 87) is a statement of the class body: it runs once, when the class
  is created, and binds the class attribute \<^verbatim>\<open>_tokens\<close> to one dict object. The class
  defines no \<^verbatim>\<open>__init__\<close> and no method assigns \<^verbatim>\<open>self._tokens\<close>, so an instance gets no
  \<^verbatim>\<open>_tokens\<close> entry of its own. The store below holds the dict objects by address, the
  class attribute, and for every instance its own \<^verbatim>\<open>_tokens\<close> entry, if it has one.
\<close>

type_synonym ref = nat

record py_heap =
  dict_objs :: "ref \<rightharpoonup> token_table"
  class_tokens :: "ref option"
  inst_tokens :: "ref \<rightharpoonup> ref option"
  next_ref :: ref

definition empty_heap :: py_heap where
  "empty_heap =
     \<lparr>dict_objs = Map.empty, class_tokens = None, inst_tokens = Map.empty, next_ref = 0\<rparr>"

text \<open>Executing the class body: a new empty dict, bound to the class attribute.\<close>

definition class_DictTokenStorage :: "py_heap \<Rightarrow> py_heap" where
  "class_DictTokenStorage h =
     h\<lparr>dict_objs := (dict_objs h)(next_ref h \<mapsto> Map.empty),
       class_tokens := Some (next_ref h),
       next_ref := Suc (next_ref h)\<rparr>"

text \<open>The call \<^verbatim>\<open>DictTokenStorage()\<close>: a new instance whose own attributes are empty.\<close>

definition new_DictTokenStorage :: "py_heap \<Rightarrow> ref \<times> py_heap" where
  "new_DictTokenStorage h =
     (next_ref h,
      h\<lparr>inst_tokens := (inst_tokens h)(next_ref h \<mapsto> None), next_ref := Suc (next_ref h)\<rparr>)"

text \<open>Attribute lookup \<^verbatim>\<open>self._tokens\<close>: the instance's own entry first, then the class
  attribute. \<open>None\<close> when \<open>self\<close> is no instance or the attribute is bound nowhere.\<close>

definition self_tokens :: "py_heap \<Rightarrow> ref \<Rightarrow> ref option" where
  "self_tokens h self =
     (case inst_tokens h self of
        None \<Rightarrow> None
      | Some (Some r) \<Rightarrow> Some r
      | Some None \<Rightarrow> class_tokens h)"

text \<open>A method call on the instance \<open>self\<close>: the method body runs on the dict object that
  \<^verbatim>\<open>self._tokens\<close> denotes and mutates that object in place.\<close>

definition call_method ::
  "(token_table \<Rightarrow> 'r \<times> token_table) \<Rightarrow> py_heap \<Rightarrow> ref \<Rightarrow> ('r \<times> py_heap) option" where
  "call_method body h self =
     (case self_tokens h self of
        None \<Rightarrow> None
      | Some r \<Rightarrow>
          (case dict_objs h r of
             None \<Rightarrow> None
           | Some tokens \<Rightarrow>
               (case body tokens of
                  (res, tokens') \<Rightarrow> Some (res, h\<lparr>dict_objs := (dict_objs h)(r \<mapsto> tokens')\<rparr>))))"

section \<open>ConfigParserClientStorage\<close>

subsection \<open>Text operations of the Python library\<close>

text \<open>
  \<^verbatim>\<open>str.isspace\<close> for the characters a \<open>char\<close> can hold (code points up to 255): the
  ASCII white space, the four separators \<^verbatim>\<open>\x1c\<close> to \<^verbatim>\<open>\x1f\<close>, \<^verbatim>\<open>\x85\<close> and \<^verbatim>\<open>\xa0\<close>.
\<close>

definition isspace :: "char \<Rightarrow> bool" where
  "isspace c =
     (let n = (of_char c :: nat)
      in (9 \<le> n \<and> n \<le> 13) \<or> (28 \<le> n \<and> n \<le> 32) \<or> n = 133 \<or> n = 160)"

text \<open>\<^verbatim>\<open>sep.join(parts)\<close>.\<close>

fun str_join :: "string \<Rightarrow> string list \<Rightarrow> string" where
  "str_join sep [] = []"
| "str_join sep [x] = x"
| "str_join sep (x # y # ys) = x @ sep @ str_join sep (y # ys)"

text \<open>
  \<^verbatim>\<open>s.split()\<close> without arguments: the maximal runs of characters that are not white
  space, in order; \<open>word\<close> is the run read so far.
\<close>

fun str_split_from :: "string \<Rightarrow> string \<Rightarrow> string list" where
  "str_split_from word [] = (if word = [] then [] else [word])"
| "str_split_from word (c # cs) =
     (if isspace c then (if word = [] then str_split_from [] cs else word # str_split_from [] cs)
      else str_split_from (word @ [c]) cs)"

definition str_split :: "string \<Rightarrow> string list" where
  "str_split s = str_split_from [] s"

text \<open>\<^verbatim>\<open>value.split()\<close> on a Python value: only text has the method.\<close>

definition py_split :: "pyval \<Rightarrow> error + string list" where
  "py_split v =
     (case v of
        PStr s \<Rightarrow> Inr (str_split s)
      | _ \<Rightarrow> Inl (AttributeError ''split''))"

text \<open>
  \<^verbatim>\<open>int(value)\<close> of Python 3. On text: white space is stripped at both ends (the
  separators \<^verbatim>\<open>\x1c\<close> to \<^verbatim>\<open>\x1f\<close> do not count as white space here), one sign may lead, then
  decimal digits follow, single underscores allowed between digits. \<open>digits_value\<close>
  reads the digits; \<open>prev\<close> tells that the last character was a digit.
\<close>

definition int_space :: "char \<Rightarrow> bool" where
  "int_space c =
     (let n = (of_char c :: nat)
      in (9 \<le> n \<and> n \<le> 13) \<or> n = 32 \<or> n = 133 \<or> n = 160)"

definition isdigit :: "char \<Rightarrow> bool" where
  "isdigit c = (48 \<le> (of_char c :: nat) \<and> (of_char c :: nat) \<le> 57)"

fun digits_value :: "string \<Rightarrow> bool \<Rightarrow> nat \<Rightarrow> nat option" where
  "digits_value [] prev acc = (if prev then Some acc else None)"
| "digits_value (c # cs) prev acc =
     (if isdigit c then digits_value cs True (10 * acc + (of_char c - 48))
      else if c = CHR ''_'' \<and> prev then digits_value cs False acc
      else None)"

definition int_strip :: "string \<Rightarrow> string" where
  "int_strip s = rev (dropWhile int_space (rev (dropWhile int_space s)))"

definition int_of_text :: "string \<Rightarrow> int option" where
  "int_of_text s =
     (case int_strip s of
        [] \<Rightarrow> None
      | c # cs \<Rightarrow>
          if c = CHR ''-'' then map_option (\<lambda>n. - int n) (digits_value cs False 0)
          else if c = CHR ''+'' then map_option int (digits_value cs False 0)
          else map_option int (digits_value (c # cs) False 0))"

definition py_int :: "pyval \<Rightarrow> error + int" where
  "py_int v =
     (case v of
        PInt n \<Rightarrow> Inr n
      | PStr s \<Rightarrow>
          (case int_of_text s of
             None \<Rightarrow> Inl (ValueError ''invalid literal for int()'')
           | Some n \<Rightarrow> Inr n)
      | _ \<Rightarrow> Inl (TypeError ''int() argument''))"

subsection \<open>RawConfigParser\<close>

text \<open>
  The parser's state in memory: the options of every section and the defaults (the
  \<^verbatim>\<open>DEFAULT\<close> section of the file read at construction). Values set by the program are
  kept as they are passed; values read from a file are text. The option names used by
  the storage are lower case already, so the parser's lower-casing of names leaves them
  unchanged.
\<close>

type_synonym options = "string \<rightharpoonup> pyval"

record RawConfigParser =
  sections :: "string \<rightharpoonup> options"
  defaults :: options

definition has_section :: "RawConfigParser \<Rightarrow> string \<Rightarrow> bool" where
  "has_section p section = (sections p section \<noteq> None)"

definition add_section :: "RawConfigParser \<Rightarrow> string \<Rightarrow> error + RawConfigParser" where
  "add_section p section =
     (if section = ''DEFAULT'' then Inl (ValueError ''Invalid section name'')
      else if sections p section \<noteq> None then Inl (DuplicateSectionError section)
      else Inr (p\<lparr>sections := (sections p)(section \<mapsto> Map.empty)\<rparr>))"

definition cfg_set ::
  "RawConfigParser \<Rightarrow> string \<Rightarrow> string \<Rightarrow> pyval \<Rightarrow> error + RawConfigParser" where
  "cfg_set p section option v =
     (if section = [] \<or> section = ''DEFAULT''
      then Inr (p\<lparr>defaults := (defaults p)(option \<mapsto> v)\<rparr>)
      else
        (case sections p section of
           None \<Rightarrow> Inl (NoSectionError section)
         | Some opts \<Rightarrow> Inr (p\<lparr>sections := (sections p)(section \<mapsto> opts(option \<mapsto> v))\<rparr>)))"

definition cfg_get :: "RawConfigParser \<Rightarrow> string \<Rightarrow> string \<Rightarrow> error + pyval" where
  "cfg_get p section option =
     (case (if section = ''DEFAULT'' then Some Map.empty else sections p section) of
        None \<Rightarrow> Inl (NoSectionError section)
      | Some opts \<Rightarrow>
          (case opts option of
             Some v \<Rightarrow> Inr v
           | None \<Rightarrow>
               (case defaults p option of
                  Some v \<Rightarrow> Inr v
                | None \<Rightarrow> Inl (NoOptionError option section))))"

definition cfg_getint :: "RawConfigParser \<Rightarrow> string \<Rightarrow> string \<Rightarrow> error + int" where
  "cfg_getint p section option =
     (case cfg_get p section option of
        Inl e \<Rightarrow> Inl e
      | Inr v \<Rightarrow> py_int v)"

subsection \<open>Client and ClientAuthType\<close>

text \<open>
  Modelled from the spec: the enumeration \<^verbatim>\<open>ClientAuthType\<close> of \<^verbatim>\<open>txoauth2/clients.py\<close>,
  which is not among the sources. The spec names a kind for clients that present a
  secret and one for public clients, "persisted as a small integer tag"; the tags
  themselves are not given, so 0 and 1 stand for two distinct integers.
  \<open>ClientAuthType_of_value\<close> is the call \<^verbatim>\<open>ClientAuthType(n)\<close>, the member with that tag.
\<close>

datatype ClientAuthType = PUBLIC | SECRET

fun ClientAuthType_value :: "ClientAuthType \<Rightarrow> int" where
  "ClientAuthType_value PUBLIC = 0"
| "ClientAuthType_value SECRET = 1"

definition ClientAuthType_of_value :: "int \<Rightarrow> error + ClientAuthType" where
  "ClientAuthType_of_value n =
     (if n = ClientAuthType_value PUBLIC then Inr PUBLIC
      else if n = ClientAuthType_value SECRET then Inr SECRET
      else Inl (ValueError ''not a valid ClientAuthType''))"

text \<open>The attributes of a client that \<^verbatim>\<open>getClient\<close> passes to the constructor (line 61).\<close>

record Client =
  id' :: string
  redirectUris :: "string list"
  authType :: ClientAuthType
  authToken :: pyval

text \<open>
  Modelled from the spec: the validation of the constructor \<^verbatim>\<open>Client\<close> of
  \<^verbatim>\<open>txoauth2/clients.py\<close>, which is not among the sources. The spec (3 and 4.3): every
  redirect URI "must parse as absolute (have a scheme; any scheme, including
  custom/non-HTTP schemes, is accepted) and must not contain a fragment", else
  construction fails with a validation error. A scheme is the text before the first
  colon: a letter, then letters, digits, \<open>+\<close>, \<open>-\<close> or \<open>.\<close>. A fragment is what follows
  the first \<open>#\<close>. That the id is text and the URIs are a list of text is in the types.
\<close>

definition isalpha :: "char \<Rightarrow> bool" where
  "isalpha c =
     (let n = (of_char c :: nat) in (65 \<le> n \<and> n \<le> 90) \<or> (97 \<le> n \<and> n \<le> 122))"

definition uri_scheme :: "string \<Rightarrow> string" where
  "uri_scheme uri =
     (let s = takeWhile (\<lambda>c. c \<noteq> CHR '':'') uri
      in case s of
           [] \<Rightarrow> []
         | c # cs \<Rightarrow>
             if length s < length uri \<and> isalpha c
                \<and> list_all (\<lambda>d. isalpha d \<or> isdigit d \<or> d = CHR ''+'' \<or> d = CHR ''-''
                                  \<or> d = CHR ''.'') cs
             then s else [])"

definition uri_fragment :: "string \<Rightarrow> string" where
  "uri_fragment uri = drop 1 (dropWhile (\<lambda>c. c \<noteq> CHR ''#'') uri)"

definition valid_redirect_uri :: "string \<Rightarrow> bool" where
  "valid_redirect_uri uri = (uri_scheme uri \<noteq> [] \<and> uri_fragment uri = [])"

definition Client_init ::
  "string \<Rightarrow> string list \<Rightarrow> ClientAuthType \<Rightarrow> pyval \<Rightarrow> error + Client" where
  "Client_init clientId uris aType aToken =
     (if list_all valid_redirect_uri uris
      then Inr \<lparr>id' = clientId, redirectUris = uris, authType = aType,
                authToken = aToken\<rparr>
      else Inl (ValueError ''Invalid redirect uri''))"

subsection \<open>The storage\<close>

record ConfigParserClientStorage =
  configParser :: RawConfigParser
  path :: string

text \<open>\<^verbatim>\<open>getClient\<close> (lines 47 to 61).\<close>

definition getClient :: "ConfigParserClientStorage \<Rightarrow> string \<Rightarrow> error + Client" where
  "getClient self clientId =
     (let sectionName = ''client_'' @ clientId in
      if \<not> has_section (configParser self) sectionName
      then Inl (KeyError (''No client with id '' @ [CHR 0x22] @ clientId @ [CHR 0x22]
                            @ '' exists''))
      else
        (case cfg_get (configParser self) sectionName ''redirect_uris'' of
           Inl e \<Rightarrow> Inl e
         | Inr v \<Rightarrow>
        (case py_split v of
           Inl e \<Rightarrow> Inl e
         | Inr uris \<Rightarrow>
        (case cfg_getint (configParser self) sectionName ''auth_type'' of
           Inl e \<Rightarrow> Inl e
         | Inr n \<Rightarrow>
        (case ClientAuthType_of_value n of
           Inl e \<Rightarrow> Inl e
         | Inr aType \<Rightarrow>
        (case cfg_get (configParser self) sectionName ''auth_token'' of
           Inl e \<Rightarrow> Inl e
         | Inr aToken \<Rightarrow> Client_init clientId uris aType aToken))))))"

text \<open>
  The file system as \<^verbatim>\<open>addClient\<close> meets it during one call: whether a path exists, and
  the exception, if any, that creating a directory or rewriting the file raises there.
  The empty path never exists and cannot be created. \<open>dirname\<close> is \<^verbatim>\<open>os.path.dirname\<close>
  for paths with the separator \<open>/\<close>: the text up to the last separator, without trailing
  separators unless it consists of separators only.
\<close>

record file_system =
  path_exists :: "string \<Rightarrow> bool"
  makedirs_raises :: "string \<Rightarrow> error option"
  write_raises :: "string \<Rightarrow> error option"

definition dirname :: "string \<Rightarrow> string" where
  "dirname p =
     (let head = rev (dropWhile (\<lambda>c. c \<noteq> CHR ''/'') (rev p))
      in if head \<noteq> [] \<and> \<not> list_all (\<lambda>c. c = CHR ''/'') head
         then rev (dropWhile (\<lambda>c. c = CHR ''/'') (rev head))
         else head)"

definition os_path_exists :: "file_system \<Rightarrow> string \<Rightarrow> bool" where
  "os_path_exists fs p = (p \<noteq> [] \<and> path_exists fs p)"

definition os_makedirs :: "file_system \<Rightarrow> string \<Rightarrow> error option" where
  "os_makedirs fs p =
     (if p = [] then Some (OSError ''No such file or directory'') else makedirs_raises fs p)"

text \<open>Lines 76 to 79 of \<^verbatim>\<open>addClient\<close>: create the directory of the file if it does not
  exist, then rewrite the file.\<close>

definition write_config :: "file_system \<Rightarrow> string \<Rightarrow> error + unit" where
  "write_config fs p =
     (case (if \<not> os_path_exists fs (dirname p) then os_makedirs fs (dirname p) else None) of
        Some e \<Rightarrow> Inl e
      | None \<Rightarrow>
          (case write_raises fs p of
             Some e \<Rightarrow> Inl e
           | None \<Rightarrow> Inr ()))"

text \<open>
  \<^verbatim>\<open>addClient\<close> (lines 63 to 79). The parser is updated in memory first (lines 70 to 75);
  then the file is written. An exception leaves the parser as updated so far.
\<close>

definition addClient ::
  "ConfigParserClientStorage \<Rightarrow> Client \<Rightarrow> file_system
     \<Rightarrow> (error + unit) \<times> ConfigParserClientStorage" where
  "addClient self client fs =
     (let sectionName = ''client_'' @ id' client;
          p0 = configParser self
      in
        (case (if \<not> has_section p0 sectionName then add_section p0 sectionName else Inr p0) of
           Inl e \<Rightarrow> (Inl e, self)
         | Inr p1 \<Rightarrow>
        (case cfg_set p1 sectionName ''auth_type''
                (PInt (ClientAuthType_value (authType client))) of
           Inl e \<Rightarrow> (Inl e, self\<lparr>configParser := p1\<rparr>)
         | Inr p2 \<Rightarrow>
        (case cfg_set p2 sectionName ''auth_token'' (authToken client) of
           Inl e \<Rightarrow> (Inl e, self\<lparr>configParser := p2\<rparr>)
         | Inr p3 \<Rightarrow>
        (case cfg_set p3 sectionName ''redirect_uris''
                (PStr (str_join '' '' (redirectUris client))) of
           Inl e \<Rightarrow> (Inl e, self\<lparr>configParser := p3\<rparr>)
         | Inr p4 \<Rightarrow> (write_config fs (path self), self\<lparr>configParser := p4\<rparr>))))))"

text \<open>A client is valid when the constructor accepts its attributes and returns it.\<close>

definition valid_client :: "Client \<Rightarrow> bool" where
  "valid_client c =
     (Client_init (id' c) (redirectUris c) (authType c) (authToken c) = Inr c)"

section \<open>UUIDTokenFactory\<close>

text \<open>
  \<^verbatim>\<open>uuid4()\<close> of the standard library reads 16 random bytes as a 128-bit integer and
  forces the variant bits and the version number 4 into it; \<open>rnd\<close> is the integer read
  from the random source.
\<close>

definition uuid4 :: "128 word \<Rightarrow> 128 word" where
  "uuid4 rnd =
     (((rnd AND NOT (push_bit 48 0xc000)) OR push_bit 48 0x8000)
        AND NOT (push_bit 64 0xf000)) OR push_bit 76 4"

text \<open>
  \<^verbatim>\<open>str\<close> of a UUID: the integer as 32 lower-case hexadecimal digits, leading zeros kept
  (\<^verbatim>\<open>'%032x' % int\<close>), cut into groups of 8, 4, 4, 4 and 12 digits joined by hyphens.
\<close>

definition hexdigit :: "nat \<Rightarrow> char" where
  "hexdigit n = ''0123456789abcdef'' ! (n mod 16)"

definition hex32 :: "nat \<Rightarrow> string" where
  "hex32 n = map (\<lambda>i. hexdigit (n div 16 ^ (31 - i))) [0..<32]"

definition UUID_str :: "128 word \<Rightarrow> string" where
  "UUID_str u =
     (let hex = hex32 (unat u)
      in take 8 hex @ ''-'' @ take 4 (drop 8 hex) @ ''-'' @ take 4 (drop 12 hex) @ ''-''
         @ take 4 (drop 16 hex) @ ''-'' @ drop 20 hex)"

text \<open>\<^verbatim>\<open>generateToken\<close> (lines 19 to 28): \<^verbatim>\<open>str(uuid4())\<close>; the four arguments are unused.\<close>

definition generateToken :: "128 word \<Rightarrow> 'l \<Rightarrow> 'c \<Rightarrow> 's \<Rightarrow> 'd \<Rightarrow> string" where
  "generateToken rnd lifetime client scope_arg additionalData = UUID_str (uuid4 rnd)"

text \<open>
  Modelled from the spec: \<^verbatim>\<open>TokenResource.isValidToken\<close> and its alphabet
  \<^verbatim>\<open>VALID_TOKEN_CHARS\<close> of \<^verbatim>\<open>txoauth2/token.py\<close>, which is not among the sources. The spec
  (4.1): the alphabet is "alphanumerics plus a small set of URL-safe punctuation", and
  the predicate is "true iff candidate is non-empty and every character belongs to the
  alphabet"; "whitespace and punctuation such as \<open>!\<close> are always rejected". The
  alphanumerics together with the punctuation that is safe in a URL are the unreserved
  characters of URLs: letters, digits, hyphen, period, underscore and tilde. The tests
  agree with this alphabet: \<^verbatim>\<open>testIsValidToken\<close> accepts \<open>aValidToken\<close> and the alphabet itself
  and refuses a space and \<open>!\<close>, and \<^verbatim>\<open>testTokenGeneration\<close> accepts the hyphenated tokens
  of the UUID factory.
\<close>

definition VALID_TOKEN_CHARS :: string where
  "VALID_TOKEN_CHARS =
     ''0123456789'' @ ''abcdefghijklmnopqrstuvwxyz'' @ ''ABCDEFGHIJKLMNOPQRSTUVWXYZ''
       @ ''-._~''"

definition isValidToken :: "string \<Rightarrow> bool" where
  "isValidToken candidate =
     (candidate \<noteq> [] \<and> list_all (\<lambda>c. c \<in> set VALID_TOKEN_CHARS) candidate)"






section \<open>TokenResource\<close>

text \<open>
  Modelled from the spec: the constructor of \<^verbatim>\<open>TokenResource\<close> and the first steps of its
  \<^verbatim>\<open>render_POST\<close>, in \<^verbatim>\<open>txoauth2/token.py\<close>, which is not among the sources (only its
  tests are). What follows is the spec's text of 3, 4.2, 4.8 and 4.9.
\<close>

datatype GrantTypes = AUTHORIZATION_CODE | IMPLICIT | PASSWORD | CLIENT_CREDENTIALS | REFRESH_TOKEN

fun GrantTypes_value :: "GrantTypes \<Rightarrow> string" where
  "GrantTypes_value AUTHORIZATION_CODE = ''authorization_code''"
| "GrantTypes_value IMPLICIT = ''implicit''"
| "GrantTypes_value PASSWORD = ''password''"
| "GrantTypes_value CLIENT_CREDENTIALS = ''client_credentials''"
| "GrantTypes_value REFRESH_TOKEN = ''refresh_token''"

text \<open>An entry of a configured allow-list: a member of the enumeration or its name.\<close>

datatype grant_type_arg = Member GrantTypes | Name string

fun grant_type_name :: "grant_type_arg \<Rightarrow> string" where
  "grant_type_name (Member g) = GrantTypes_value g"
| "grant_type_name (Name s) = s"

datatype OAuth2Error =
    InsecureConnectionError
  | MalformedRequestError
  | UnsupportedGrantTypeError string
  | MissingParameterError string
  | MultipleParameterError string
  | MalformedParameterError string
  | InvalidParameterError string

record 'pm TokenResource =
  acceptedGrantTypes :: "string list"
  passwordManager :: "'pm option"
  allowInsecureRequestDebug :: bool

text \<open>
  Modelled from the spec: construction (4.9, 4.8). The allow-list defaults to "all except
  the implicit grant, which is never valid at the token endpoint -- if included in a
  configured allow-list it is silently dropped"; "omitting [the Password Manager] while
  enabling the password grant is a configuration error (construction fails
  immediately)". The error is the \<^verbatim>\<open>ValueError\<close> that
  \<^verbatim>\<open>testRequiresPasswordManagerForPasswordGrant\<close> expects.
\<close>

definition enabledGrantTypes :: "grant_type_arg list option \<Rightarrow> string list" where
  "enabledGrantTypes grantTypes =
     (case grantTypes of
        None \<Rightarrow> map GrantTypes_value
                  [AUTHORIZATION_CODE, PASSWORD, CLIENT_CREDENTIALS, REFRESH_TOKEN]
      | Some gs \<Rightarrow> filter (\<lambda>g. g \<noteq> GrantTypes_value IMPLICIT) (map grant_type_name gs))"

definition TokenResource_init ::
  "'pm option \<Rightarrow> bool \<Rightarrow> grant_type_arg list option \<Rightarrow> error + 'pm TokenResource" where
  "TokenResource_init pm allowInsecure grantTypes =
     (if GrantTypes_value PASSWORD \<in> set (enabledGrantTypes grantTypes) \<and> pm = None
      then Inl (ValueError ''A password manager is required for the password grant'')
      else Inr \<lparr>acceptedGrantTypes = enabledGrantTypes grantTypes, passwordManager = pm,
                allowInsecureRequestDebug = allowInsecure\<rparr>)"

text \<open>
  A request as the pipeline of 4.9 reads it: the transport, the declared content type and
  the parameters of the query and of the body, in order, with repetitions. A parameter
  value is a byte string that either decodes as text or does not.
\<close>

datatype raw_value = Decodes string | Undecodable

record Request =
  isSecure :: bool
  contentType :: "string option"
  queryArgs :: "(string \<times> raw_value) list"
  bodyArgs :: "(string \<times> raw_value) list"

text \<open>The values of a parameter "across the combined query and body parameters".\<close>

definition param_values :: "Request \<Rightarrow> string \<Rightarrow> raw_value list" where
  "param_values request name =
     map snd (filter (\<lambda>kv. fst kv = name) (queryArgs request @ bodyArgs request))"

text \<open>
  Modelled from the spec: step 4 of the request acceptance pipeline. "\<^verbatim>\<open>grant_type\<close> must
  appear exactly once [...] MissingParameterError if absent, MultipleParameterError if
  repeated (checked before value validity [...]); its value must decode as text, else
  InvalidParameterError; the decoded value must be one of the grant types this instance
  currently accepts, else UnsupportedGrantTypeError, carrying the offending value."
\<close>

definition check_grant_type :: "'pm TokenResource \<Rightarrow> Request \<Rightarrow> OAuth2Error + string" where
  "check_grant_type self request =
     (case param_values request ''grant_type'' of
        [] \<Rightarrow> Inl (MissingParameterError ''grant_type'')
      | [v] \<Rightarrow>
          (case v of
             Undecodable \<Rightarrow> Inl (InvalidParameterError ''grant_type'')
           | Decodes grantType \<Rightarrow>
               if grantType \<in> set (acceptedGrantTypes self) then Inr grantType
               else Inl (UnsupportedGrantTypeError grantType))
      | _ \<Rightarrow> Inl (MultipleParameterError ''grant_type''))"

text \<open>
  Modelled from the spec: steps 2 to 4 of the pipeline, each of which "short-circuits to
  the stated error on failure". The result is the accepted grant type, with which the
  later steps (client authentication, the grant's handler) go on.
\<close>

definition accept_request :: "'pm TokenResource \<Rightarrow> Request \<Rightarrow> OAuth2Error + string" where
  "accept_request self request =
     (if \<not> allowInsecureRequestDebug self \<and> \<not> isSecure request
      then Inl InsecureConnectionError
      else if contentType request \<noteq> Some ''application/x-www-form-urlencoded''
      then Inl MalformedRequestError
      else check_grant_type self request)"

section \<open>Properties of the token storage\<close>

lemma checkExpire_absent:
  "tokens token = None \<Longrightarrow> checkExpire now tokens token = (Inl (KeyError token), tokens)"
  by (simp add: checkExpire_def)

lemma checkExpire_expired:
  "tokens token = Some entry \<Longrightarrow> expired_at now entry \<Longrightarrow>
   checkExpire now tokens token = (Inr True, tokens(token := None))"
  by (auto simp: checkExpire_def expired_at_def split: option.splits)

lemma checkExpire_live:
  "tokens token = Some entry \<Longrightarrow> \<not> expired_at now entry \<Longrightarrow>
   checkExpire now tokens token = (Inr False, tokens)"
  by (auto simp: checkExpire_def expired_at_def split: option.splits)

lemma hasAccess_loop_present:
  "tokens token = Some entry \<Longrightarrow>
   hasAccess_loop tokens token req = Inr (list_all (\<lambda>s. s \<in> set (scope entry)) req)"
  by (induction req) simp_all

text \<open>The three cases of each lookup: no record, an expired record, a live record.\<close>

lemma contains_cases:
  "contains now tokens token =
     (case tokens token of
        None \<Rightarrow> (Inr False, tokens)
      | Some entry \<Rightarrow>
          if expired_at now entry then (Inr False, tokens(token := None))
          else (Inr True, tokens))"
proof (cases "tokens token")
  case None
  then show ?thesis by (simp add: contains_def)
next
  case (Some entry)
  show ?thesis
  proof (cases "expired_at now entry")
    case True
    with Some show ?thesis by (simp add: contains_def checkExpire_expired)
  next
    case False
    with Some show ?thesis by (simp add: contains_def checkExpire_live)
  qed
qed

lemma hasAccess_cases:
  "hasAccess now tokens token req =
     (case tokens token of
        None \<Rightarrow> (Inl (KeyError token), tokens)
      | Some entry \<Rightarrow>
          if expired_at now entry then (Inl (KeyError ''Token expired''), tokens(token := None))
          else (Inr (list_all (\<lambda>s. s \<in> set (scope entry)) req), tokens))"
proof (cases "tokens token")
  case None
  then show ?thesis by (simp add: hasAccess_def checkExpire_absent)
next
  case (Some entry)
  show ?thesis
  proof (cases "expired_at now entry")
    case True
    with Some show ?thesis by (simp add: hasAccess_def checkExpire_expired)
  next
    case False
    with Some show ?thesis
      by (simp add: hasAccess_def checkExpire_live hasAccess_loop_present)
  qed
qed

lemma getTokenData_cases:
  "getTokenData now tokens token =
     (case tokens token of
        None \<Rightarrow> (Inl (KeyError token), tokens)
      | Some entry \<Rightarrow>
          if expired_at now entry then (Inl (KeyError token), tokens(token := None))
          else (Inr (scope entry, data entry), tokens))"
proof (cases "tokens token")
  case None
  then show ?thesis by (simp add: getTokenData_def checkExpire_absent)
next
  case (Some entry)
  show ?thesis
  proof (cases "expired_at now entry")
    case True
    with Some show ?thesis by (simp add: getTokenData_def checkExpire_expired)
  next
    case False
    with Some show ?thesis by (simp add: getTokenData_def checkExpire_live)
  qed
qed

text \<open>
  C3. A \<^verbatim>\<open>store\<close> call with a string token and an \<open>expireTime\<close> that lies in the past at the
  time of the call returns normally and leaves the token table as it was. If the table
  had no record for the token, \<^verbatim>\<open>contains\<close> answers \<open>False\<close> for it at any later call.
\<close>

theorem store_past_expireTime_noop:
  "t < now \<Longrightarrow>
     store now tokens (PStr tok) client scope_arg additionalData (Some t) = (Inr (), tokens)
     \<and> (tokens tok = None \<longrightarrow>
          fst (contains later
                 (snd (store now tokens (PStr tok) client scope_arg additionalData (Some t)))
                 tok) = Inr False)"
  by (simp add: store_def contains_def)

theorem store_past_expireTime_noop_witness:
  "(5::real) < 10
   \<and> store 10 Map.empty (PStr ''tok'') () (PStr ''All'') PNone (Some 5) = (Inr (), Map.empty)
   \<and> fst (contains 11
            (snd (store 10 Map.empty (PStr ''tok'') () (PStr ''All'') PNone (Some 5)))
            ''tok'') = Inr False"
  using store_past_expireTime_noop
    [of 5 10 Map.empty "''tok''" "()" "PStr ''All''" PNone 11]
  by (simp add: store_def contains_def)

text \<open>
  C4. \<^verbatim>\<open>contains\<close> never raises. It answers \<open>True\<close> exactly when the table holds a record
  for the token that has not expired at the time of the call; an absent token gives
  \<open>False\<close> and an unchanged table; an expired record is removed from the table; a live
  record leaves the table unchanged.
\<close>

theorem contains_iff_live_record:
  "fst (contains now tokens token) =
     Inr (case tokens token of None \<Rightarrow> False | Some entry \<Rightarrow> \<not> expired_at now entry)
   \<and> (tokens token = None \<longrightarrow> contains now tokens token = (Inr False, tokens))
   \<and> (\<forall>entry. tokens token = Some entry \<and> expired_at now entry \<longrightarrow>
         snd (contains now tokens token) = tokens(token := None))
   \<and> (\<forall>entry. tokens token = Some entry \<and> \<not> expired_at now entry \<longrightarrow>
         snd (contains now tokens token) = tokens)"
  by (simp add: contains_cases split: option.splits)

theorem contains_iff_live_record_witness:
  "[''tok'' \<mapsto> \<lparr>data = PNone, expireTime = Some 5, scope = []\<rparr>] ''tok''
     = Some \<lparr>data = PNone, expireTime = Some 5, scope = []\<rparr>
   \<and> expired_at 10 \<lparr>data = PNone, expireTime = Some 5, scope = []\<rparr>
   \<and> [''tok'' \<mapsto> \<lparr>data = PNone, expireTime = Some 5, scope = []\<rparr>] ''gone'' = None
   \<and> fst (contains 10 [''tok'' \<mapsto> \<lparr>data = PNone, expireTime = Some 5, scope = []\<rparr>] ''tok'')
       = Inr False
   \<and> snd (contains 10 [''tok'' \<mapsto> \<lparr>data = PNone, expireTime = Some 5, scope = []\<rparr>] ''tok'')
       = Map.empty
   \<and> \<not> expired_at 5 \<lparr>data = PNone, expireTime = Some 5, scope = []\<rparr>
   \<and> contains 5 [''tok'' \<mapsto> \<lparr>data = PNone, expireTime = Some 5, scope = []\<rparr>] ''tok''
       = (Inr True, [''tok'' \<mapsto> \<lparr>data = PNone, expireTime = Some 5, scope = []\<rparr>])
   \<and> contains 10 [''tok'' \<mapsto> \<lparr>data = PNone, expireTime = Some 5, scope = []\<rparr>] ''gone''
       = (Inr False, [''tok'' \<mapsto> \<lparr>data = PNone, expireTime = Some 5, scope = []\<rparr>])"
  using
    contains_iff_live_record
      [of 10 "[''tok'' \<mapsto> \<lparr>data = PNone, expireTime = Some 5, scope = []\<rparr>]" "''tok''"]
    contains_iff_live_record
      [of 5 "[''tok'' \<mapsto> \<lparr>data = PNone, expireTime = Some 5, scope = []\<rparr>]" "''tok''"]
    contains_iff_live_record
      [of 10 "[''tok'' \<mapsto> \<lparr>data = PNone, expireTime = Some 5, scope = []\<rparr>]" "''gone''"]
  by (simp add: expired_at_def prod_eq_iff)

text \<open>
  C5. \<^verbatim>\<open>hasAccess\<close> raises \<^verbatim>\<open>KeyError\<close> exactly when the table has no record for the token or
  the record has expired at the time of the call, and it raises nothing else. For a
  live record it returns \<open>True\<close> exactly when every item of the requested scope list is in
  the stored scope, and \<open>False\<close> otherwise.
\<close>

theorem hasAccess_KeyError_iff_no_live_record:
  "((\<exists>msg. fst (hasAccess now tokens token req) = Inl (KeyError msg)) \<longleftrightarrow>
      (case tokens token of None \<Rightarrow> True | Some entry \<Rightarrow> expired_at now entry))
   \<and> ((\<exists>e. fst (hasAccess now tokens token req) = Inl e) \<longleftrightarrow>
      (\<exists>msg. fst (hasAccess now tokens token req) = Inl (KeyError msg)))
   \<and> (\<forall>entry. tokens token = Some entry \<and> \<not> expired_at now entry \<longrightarrow>
         fst (hasAccess now tokens token req) = Inr (\<forall>s \<in> set req. s \<in> set (scope entry)))"
  by (simp add: hasAccess_cases list_all_iff split: option.splits)

theorem hasAccess_KeyError_iff_no_live_record_witness:
  "[''tok'' \<mapsto> \<lparr>data = PNone, expireTime = Some 5, scope = [PStr ''All'', PStr ''scope'']\<rparr>] ''tok''
     = Some \<lparr>data = PNone, expireTime = Some 5, scope = [PStr ''All'', PStr ''scope'']\<rparr>
   \<and> \<not> expired_at 4 \<lparr>data = PNone, expireTime = Some 5, scope = [PStr ''All'', PStr ''scope'']\<rparr>
   \<and> fst (hasAccess 4
        [''tok'' \<mapsto> \<lparr>data = PNone, expireTime = Some 5, scope = [PStr ''All'', PStr ''scope'']\<rparr>]
        ''tok'' [PStr ''scope'']) = Inr True
   \<and> fst (hasAccess 4
        [''tok'' \<mapsto> \<lparr>data = PNone, expireTime = Some 5, scope = [PStr ''All'', PStr ''scope'']\<rparr>]
        ''tok'' [PStr ''scope'', PStr ''other'']) = Inr False
   \<and> (\<exists>msg. fst (hasAccess 6
        [''tok'' \<mapsto> \<lparr>data = PNone, expireTime = Some 5, scope = [PStr ''All'', PStr ''scope'']\<rparr>]
        ''tok'' [PStr ''scope'']) = Inl (KeyError msg))"
  using
    hasAccess_KeyError_iff_no_live_record
      [of 4 "[''tok'' \<mapsto> \<lparr>data = PNone, expireTime = Some 5, scope = [PStr ''All'', PStr ''scope'']\<rparr>]"
          "''tok''" "[PStr ''scope'']"]
    hasAccess_KeyError_iff_no_live_record
      [of 4 "[''tok'' \<mapsto> \<lparr>data = PNone, expireTime = Some 5, scope = [PStr ''All'', PStr ''scope'']\<rparr>]"
          "''tok''" "[PStr ''scope'', PStr ''other'']"]
    hasAccess_KeyError_iff_no_live_record
      [of 6 "[''tok'' \<mapsto> \<lparr>data = PNone, expireTime = Some 5, scope = [PStr ''All'', PStr ''scope'']\<rparr>]"
          "''tok''" "[PStr ''scope'']"]
  by (simp add: expired_at_def)

text \<open>
  C9. \<^verbatim>\<open>getTokenData\<close> raises \<^verbatim>\<open>KeyError\<close> when the table has no record for the token and
  when the record has expired at the time of the call; in the second case the record is
  removed. It returns the stored pair of scope and additional data for a live record,
  with the table unchanged, and so whatever it returns is the data of a live record.
\<close>

theorem getTokenData_KeyError_unless_live:
  "(tokens token = None \<longrightarrow>
      getTokenData now tokens token = (Inl (KeyError token), tokens))
   \<and> (\<forall>entry. tokens token = Some entry \<and> expired_at now entry \<longrightarrow>
         getTokenData now tokens token = (Inl (KeyError token), tokens(token := None)))
   \<and> (\<forall>entry. tokens token = Some entry \<and> \<not> expired_at now entry \<longrightarrow>
         getTokenData now tokens token = (Inr (scope entry, data entry), tokens))
   \<and> (\<forall>r. fst (getTokenData now tokens token) = Inr r \<longrightarrow>
         (\<exists>entry. tokens token = Some entry \<and> \<not> expired_at now entry
                   \<and> r = (scope entry, data entry)))"
  by (auto simp: getTokenData_cases split: option.splits if_splits)

theorem getTokenData_KeyError_unless_live_witness:
  "[''tok'' \<mapsto> \<lparr>data = PInt 7, expireTime = Some 5, scope = [PStr ''All'']\<rparr>] ''tok''
     = Some \<lparr>data = PInt 7, expireTime = Some 5, scope = [PStr ''All'']\<rparr>
   \<and> [''tok'' \<mapsto> \<lparr>data = PInt 7, expireTime = Some 5, scope = [PStr ''All'']\<rparr>] ''gone'' = None
   \<and> expired_at 6 \<lparr>data = PInt 7, expireTime = Some 5, scope = [PStr ''All'']\<rparr>
   \<and> \<not> expired_at 5 \<lparr>data = PInt 7, expireTime = Some 5, scope = [PStr ''All'']\<rparr>
   \<and> getTokenData 6 [''tok'' \<mapsto> \<lparr>data = PInt 7, expireTime = Some 5, scope = [PStr ''All'']\<rparr>]
        ''tok'' = (Inl (KeyError ''tok''), Map.empty)
   \<and> getTokenData 5 [''tok'' \<mapsto> \<lparr>data = PInt 7, expireTime = Some 5, scope = [PStr ''All'']\<rparr>]
        ''tok''
      = (Inr ([PStr ''All''], PInt 7),
         [''tok'' \<mapsto> \<lparr>data = PInt 7, expireTime = Some 5, scope = [PStr ''All'']\<rparr>])
   \<and> getTokenData 5 [''tok'' \<mapsto> \<lparr>data = PInt 7, expireTime = Some 5, scope = [PStr ''All'']\<rparr>]
        ''gone''
      = (Inl (KeyError ''gone''),
         [''tok'' \<mapsto> \<lparr>data = PInt 7, expireTime = Some 5, scope = [PStr ''All'']\<rparr>])"
  using
    getTokenData_KeyError_unless_live
      [of "[''tok'' \<mapsto> \<lparr>data = PInt 7, expireTime = Some 5, scope = [PStr ''All'']\<rparr>]"
          "''tok''" 6]
    getTokenData_KeyError_unless_live
      [of "[''tok'' \<mapsto> \<lparr>data = PInt 7, expireTime = Some 5, scope = [PStr ''All'']\<rparr>]"
          "''tok''" 5]
    getTokenData_KeyError_unless_live
      [of "[''tok'' \<mapsto> \<lparr>data = PInt 7, expireTime = Some 5, scope = [PStr ''All'']\<rparr>]"
          "''gone''" 5]
  by (simp add: expired_at_def)

text \<open>
  C10. For a token with a live record, \<^verbatim>\<open>hasAccess\<close> with an empty requested scope list
  returns \<open>True\<close>, whatever the stored scope is, and leaves the table unchanged.
\<close>

theorem hasAccess_empty_scope_granted:
  "tokens token = Some entry \<Longrightarrow> \<not> expired_at now entry \<Longrightarrow>
   hasAccess now tokens token [] = (Inr True, tokens)"
  by (simp add: hasAccess_cases)

theorem hasAccess_empty_scope_granted_witness:
  "[''tok'' \<mapsto> \<lparr>data = PNone, expireTime = None, scope = [PStr ''All'']\<rparr>] ''tok''
     = Some \<lparr>data = PNone, expireTime = None, scope = [PStr ''All'']\<rparr>
   \<and> \<not> expired_at 10 \<lparr>data = PNone, expireTime = None, scope = [PStr ''All'']\<rparr>
   \<and> hasAccess 10 [''tok'' \<mapsto> \<lparr>data = PNone, expireTime = None, scope = [PStr ''All'']\<rparr>]
        ''tok'' []
      = (Inr True, [''tok'' \<mapsto> \<lparr>data = PNone, expireTime = None, scope = [PStr ''All'']\<rparr>])"
  using
    hasAccess_empty_scope_granted
      [of "[''tok'' \<mapsto> \<lparr>data = PNone, expireTime = None, scope = [PStr ''All'']\<rparr>]"
          "''tok''" "\<lparr>data = PNone, expireTime = None, scope = [PStr ''All'']\<rparr>" 10]
  by (simp add: expired_at_def)

section \<open>Two instances of DictTokenStorage\<close>

lemma self_tokens_new_instances:
  "class_tokens h = Some r \<Longrightarrow>
   new_DictTokenStorage h = (a, h1) \<Longrightarrow> new_DictTokenStorage h1 = (b, h2) \<Longrightarrow>
   a \<noteq> b \<and> self_tokens h2 a = Some r \<and> self_tokens h2 b = Some r"
  by (auto simp: new_DictTokenStorage_def self_tokens_def)

text \<open>Whenever two instances resolve \<^verbatim>\<open>self._tokens\<close> to the same dict object, a token stored
  without expiry through one of them is contained in the other.\<close>

lemma store_seen_through_same_dict:
  assumes "self_tokens h a = Some r" and "self_tokens h b = Some r"
    and "dict_objs h r = Some tokens"
  shows "\<exists>h'. call_method (\<lambda>t. store now t (PStr tok) client scope_arg additionalData None) h a
               = Some (Inr (), h')
            \<and> map_option fst (call_method (\<lambda>t. contains later t tok) h' b) = Some (Inr True)"
  using assms
  by (simp add: call_method_def store_def self_tokens_def contains_def checkExpire_def
      split: option.splits)

text \<open>
  C1. The class is created, then two instances \<open>a\<close> and \<open>b\<close>, as \<^verbatim>\<open>setUpClass\<close> of the token
  resource tests does for the access tokens and the refresh tokens. The instances are
  distinct objects and \<open>b\<close> has no record for the token \<open>''refreshToken''\<close>. After
  \<open>a.store('refreshToken', client, ['All', 'scope'])\<close> the call
  \<open>b.contains('refreshToken')\<close> returns \<open>True\<close>: both instances read and write the one
  dict object of the class attribute.
\<close>

theorem store_on_one_instance_shows_in_other:
  "(case new_DictTokenStorage (class_DictTokenStorage empty_heap) of
      (a, h1) \<Rightarrow>
        (case new_DictTokenStorage h1 of
           (b, h2) \<Rightarrow>
             a \<noteq> b
             \<and> map_option fst (call_method (\<lambda>tokens. contains 0 tokens ''refreshToken'') h2 b)
                 = Some (Inr False)
             \<and> (case call_method
                       (\<lambda>tokens. store 0 tokens (PStr ''refreshToken'') ()
                                    (PList [PStr ''All'', PStr ''scope'']) PNone None) h2 a of
                  None \<Rightarrow> False
                | Some (res, h3) \<Rightarrow>
                    res = Inr ()
                    \<and> map_option fst
                         (call_method (\<lambda>tokens. contains 1 tokens ''refreshToken'') h3 b)
                       = Some (Inr True))))"
  by (simp add: new_DictTokenStorage_def class_DictTokenStorage_def empty_heap_def
      call_method_def self_tokens_def contains_def store_def checkExpire_def)

section \<open>Properties of the client storage\<close>

lemma str_split_from_word:
  "list_all (\<lambda>c. \<not> isspace c) u \<Longrightarrow> str_split_from w (u @ rest) = str_split_from (w @ u) rest"
  by (induction u arbitrary: w) simp_all

lemma isspace_space: "isspace CHR '' ''"
  by (simp add: isspace_def)

text \<open>Splitting the space-joined text gives the parts back when no part is empty or
  holds white space.\<close>

lemma str_split_join:
  "list_all (\<lambda>u. u \<noteq> [] \<and> list_all (\<lambda>c. \<not> isspace c) u) us \<Longrightarrow>
   str_split (str_join '' '' us) = us"
proof (induction us)
  case Nil
  then show ?case by (simp add: str_split_def)
next
  case (Cons u us)
  then have u: "u \<noteq> []" "list_all (\<lambda>c. \<not> isspace c) u" by simp_all
  show ?case
  proof (cases us)
    case Nil
    have "str_split_from [] (u @ []) = str_split_from ([] @ u) []"
      using u(2) by (rule str_split_from_word)
    with u(1) Nil show ?thesis by (simp add: str_split_def)
  next
    case (Cons v vs)
    have "str_split_from [] (u @ (CHR '' '' # str_join '' '' (v # vs)))
          = str_split_from ([] @ u) (CHR '' '' # str_join '' '' (v # vs))"
      using u(2) by (rule str_split_from_word)
    moreover have "str_split_from [] (str_join '' '' (v # vs)) = v # vs"
      using Cons.IH Cons.prems Cons by (simp add: str_split_def)
    ultimately show ?thesis
      using u(1) Cons by (simp add: str_split_def isspace_space)
  qed
qed

lemma valid_redirect_uri_nonempty: "valid_redirect_uri u \<Longrightarrow> u \<noteq> []"
  by (auto simp: valid_redirect_uri_def uri_scheme_def)

text \<open>What \<^verbatim>\<open>addClient\<close> returns and the parser it leaves behind: the section of the client
  holds its former options, overwritten by the three options of the client.\<close>

lemma addClient_state:
  "addClient self c fs =
     (write_config fs (path self),
      self\<lparr>configParser := (configParser self)
        \<lparr>sections := (sections (configParser self))
           (''client_'' @ id' c \<mapsto>
              (case sections (configParser self) (''client_'' @ id' c) of
                 None \<Rightarrow> Map.empty | Some opts \<Rightarrow> opts)
              (''auth_type'' \<mapsto> PInt (ClientAuthType_value (authType c)),
               ''auth_token'' \<mapsto> authToken c,
               ''redirect_uris'' \<mapsto> PStr (str_join '' '' (redirectUris c))))\<rparr>\<rparr>)"
  by (cases "sections (configParser self) (''client_'' @ id' c)")
     (simp_all add: addClient_def has_section_def add_section_def cfg_set_def Let_def)

lemma ClientAuthType_of_value_value: "ClientAuthType_of_value (ClientAuthType_value a) = Inr a"
  by (cases a) (simp_all add: ClientAuthType_of_value_def)

lemma getClient_after_addClient:
  assumes "valid_client c"
    and "list_all (\<lambda>u. list_all (\<lambda>ch. \<not> isspace ch) u) (redirectUris c)"
  shows "getClient (snd (addClient self c fs)) (id' c) = Inr c"
proof -
  from assms(1) have "list_all valid_redirect_uri (redirectUris c)"
    by (auto simp: valid_client_def Client_init_def split: if_splits)
  with assms(2)
  have "list_all (\<lambda>u. u \<noteq> [] \<and> list_all (\<lambda>c. \<not> isspace c) u) (redirectUris c)"
    by (auto simp: list_all_iff dest: valid_redirect_uri_nonempty)
  then have "str_split (str_join '' '' (redirectUris c)) = redirectUris c"
    by (rule str_split_join)
  with assms(1) show ?thesis
    by (simp add: addClient_state getClient_def has_section_def cfg_get_def cfg_getint_def
        py_split_def py_int_def ClientAuthType_of_value_value valid_client_def)
qed

text \<open>
  C6, as stated, fails. The client below is valid: its one redirect URI has the scheme
  \<open>https\<close> and no fragment. The URI holds a space, so the text \<^verbatim>\<open>addClient\<close> stores for
  \<open>redirect_uris\<close> splits into two parts. The directory of the file exists and writing
  succeeds, so \<^verbatim>\<open>addClient\<close> returns normally, and the following \<^verbatim>\<open>getClient\<close> does not
  return a client with the redirect URIs of the one stored.
\<close>

theorem getClient_after_addClient_uri_with_space:
  "valid_client
     \<lparr>id' = ''c'', redirectUris = [''https://a b''], authType = SECRET,
      authToken = PStr ''s''\<rparr>
   \<and> fst (addClient
            \<lparr>configParser = \<lparr>sections = Map.empty, defaults = Map.empty\<rparr>,
             path = ''/tmp/clients.ini''\<rparr>
            \<lparr>id' = ''c'', redirectUris = [''https://a b''], authType = SECRET,
             authToken = PStr ''s''\<rparr>
            \<lparr>path_exists = (\<lambda>p. p = ''/tmp''), makedirs_raises = (\<lambda>p. None),
             write_raises = (\<lambda>p. None)\<rparr>) = Inr ()
   \<and> py_split (PStr (str_join '' '' [''https://a b''])) = Inr [''https://a'', ''b'']
   \<and> getClient
        (snd (addClient
                \<lparr>configParser = \<lparr>sections = Map.empty, defaults = Map.empty\<rparr>,
                 path = ''/tmp/clients.ini''\<rparr>
                \<lparr>id' = ''c'', redirectUris = [''https://a b''], authType = SECRET,
                 authToken = PStr ''s''\<rparr>
                \<lparr>path_exists = (\<lambda>p. p = ''/tmp''), makedirs_raises = (\<lambda>p. None),
                 write_raises = (\<lambda>p. None)\<rparr>))
        ''c''
      \<noteq> Inr \<lparr>id' = ''c'', redirectUris = [''https://a b''], authType = SECRET,
              authToken = PStr ''s''\<rparr>"
  by (simp add: addClient_state getClient_def has_section_def cfg_get_def cfg_getint_def
      py_split_def py_int_def ClientAuthType_of_value_def str_split_def isspace_def Let_def
      valid_client_def Client_init_def valid_redirect_uri_def uri_scheme_def uri_fragment_def
      isalpha_def isdigit_def write_config_def os_path_exists_def dirname_def)

text \<open>
  C6, amended. For every valid client whose redirect URIs hold no white space, after
  \<^verbatim>\<open>addClient\<close> the call \<^verbatim>\<open>getClient\<close> with the client's id returns a client with the same
  id, redirect URIs, authentication type and authentication token. This holds whether or
  not writing the file succeeded; \<^verbatim>\<open>addClient\<close> itself raises exactly what writing the file
  raises. \<^verbatim>\<open>getClient\<close> with an id whose section the parser does not hold raises
  \<^verbatim>\<open>KeyError\<close>.
\<close>

theorem addClient_getClient_roundtrip:
  "(valid_client c \<and> list_all (\<lambda>u. list_all (\<lambda>ch. \<not> isspace ch) u) (redirectUris c) \<longrightarrow>
      getClient (snd (addClient self c fs)) (id' c) = Inr c)
   \<and> fst (addClient self c fs) = write_config fs (path self)
   \<and> (sections (configParser self) (''client_'' @ clientId) = None \<longrightarrow>
        (\<exists>msg. getClient self clientId = Inl (KeyError msg)))"
proof -
  have "fst (addClient self c fs) = write_config fs (path self)"
    by (simp add: addClient_state)
  moreover have "sections (configParser self) (''client_'' @ clientId) = None \<Longrightarrow>
      \<exists>msg. getClient self clientId = Inl (KeyError msg)"
    by (simp add: getClient_def has_section_def)
  ultimately show ?thesis
    using getClient_after_addClient [of c self fs] by blast
qed

theorem addClient_getClient_roundtrip_witness:
  "valid_client
     \<lparr>id' = ''newClientId'',
      redirectUris = [''https://return.nonexistent'', ''https://return2.nonexistent''],
      authType = SECRET, authToken = PStr ''newClientSecret''\<rparr>
   \<and> list_all (\<lambda>u. list_all (\<lambda>ch. \<not> isspace ch) u)
        [''https://return.nonexistent'', ''https://return2.nonexistent'']
   \<and> addClient
        \<lparr>configParser = \<lparr>sections = Map.empty, defaults = Map.empty\<rparr>,
         path = ''/tmp/clients.ini''\<rparr>
        \<lparr>id' = ''newClientId'',
         redirectUris = [''https://return.nonexistent'', ''https://return2.nonexistent''],
         authType = SECRET, authToken = PStr ''newClientSecret''\<rparr>
        \<lparr>path_exists = (\<lambda>p. p = ''/tmp''), makedirs_raises = (\<lambda>p. None),
         write_raises = (\<lambda>p. None)\<rparr>
      = (Inr (),
         \<lparr>configParser =
            \<lparr>sections =
               [''client_newClientId'' \<mapsto>
                  [''auth_type'' \<mapsto> PInt 1,
                   ''auth_token'' \<mapsto> PStr ''newClientSecret'',
                   ''redirect_uris'' \<mapsto>
                      PStr ''https://return.nonexistent https://return2.nonexistent'']],
             defaults = Map.empty\<rparr>,
          path = ''/tmp/clients.ini''\<rparr>)
   \<and> getClient
        (snd (addClient
                \<lparr>configParser = \<lparr>sections = Map.empty, defaults = Map.empty\<rparr>,
                 path = ''/tmp/clients.ini''\<rparr>
                \<lparr>id' = ''newClientId'',
                 redirectUris = [''https://return.nonexistent'', ''https://return2.nonexistent''],
                 authType = SECRET, authToken = PStr ''newClientSecret''\<rparr>
                \<lparr>path_exists = (\<lambda>p. p = ''/tmp''), makedirs_raises = (\<lambda>p. None),
                 write_raises = (\<lambda>p. None)\<rparr>))
        ''newClientId''
      = Inr \<lparr>id' = ''newClientId'',
             redirectUris = [''https://return.nonexistent'', ''https://return2.nonexistent''],
             authType = SECRET, authToken = PStr ''newClientSecret''\<rparr>
   \<and> sections (configParser
        \<lparr>configParser = \<lparr>sections = Map.empty, defaults = Map.empty\<rparr>,
         path = ''/tmp/clients.ini''\<rparr>) (''client_'' @ ''invalidClientId'') = None
   \<and> (\<exists>msg. getClient
        \<lparr>configParser = \<lparr>sections = Map.empty, defaults = Map.empty\<rparr>,
         path = ''/tmp/clients.ini''\<rparr> ''invalidClientId'' = Inl (KeyError msg))"
  using addClient_getClient_roundtrip
    [of "\<lparr>id' = ''newClientId'',
          redirectUris = [''https://return.nonexistent'', ''https://return2.nonexistent''],
          authType = SECRET, authToken = PStr ''newClientSecret''\<rparr>"
        "\<lparr>configParser = \<lparr>sections = Map.empty, defaults = Map.empty\<rparr>,
          path = ''/tmp/clients.ini''\<rparr>"
        "\<lparr>path_exists = (\<lambda>p. p = ''/tmp''), makedirs_raises = (\<lambda>p. None),
          write_raises = (\<lambda>p. None)\<rparr>"
        "''invalidClientId''"]
  by (simp add: valid_client_def Client_init_def valid_redirect_uri_def uri_scheme_def
      uri_fragment_def isalpha_def isdigit_def isspace_def addClient_state
      write_config_def os_path_exists_def dirname_def)

section \<open>Properties of the token factory\<close>

subsection \<open>The bits of the identifier\<close>








subsection \<open>The digits of the text\<close>






















subsection \<open>The alphabet and the tests\<close>

text \<open>The four assertions of \<^verbatim>\<open>testIsValidToken\<close>.\<close>

lemma testIsValidToken:
  "isValidToken ''aValidToken''"
  "isValidToken VALID_TOKEN_CHARS"
  "\<not> isValidToken ''Token!''"
  "\<not> isValidToken ''an invalid Token''"
  by (simp_all add: isValidToken_def VALID_TOKEN_CHARS_def list_all_iff)

text \<open>The model agrees with the library on a known value: the integer
  \<open>0x0123456789abcdef0123456789abcdef\<close> from the random source gives the token
  \<open>01234567-89ab-4def-8123-456789abcdef\<close>.\<close>

lemma generateToken_example:
  "generateToken 0x0123456789abcdef0123456789abcdef (3600 :: int) ''client'' [''All'']
     (None :: pyval option) = ''01234567-89ab-4def-8123-456789abcdef''"
  by (simp add: generateToken_def UUID_str_def uuid4_def hex32_def hexdigit_def
      upt_conv_Cons Let_def)



section \<open>Properties of the token resource\<close>

text \<open>
  C2. For a request that passes the transport and content-type steps, the
  \<^verbatim>\<open>grant_type\<close> parameter is checked in this order over the combined query and body
  parameters: no occurrence gives \<^verbatim>\<open>MissingParameterError\<close>; more than one occurrence
  gives \<^verbatim>\<open>MultipleParameterError\<close>, whatever the values are; one occurrence that does not
  decode as text gives \<^verbatim>\<open>InvalidParameterError\<close>; one occurrence that decodes to a value
  outside the accepted grant types gives \<^verbatim>\<open>UnsupportedGrantTypeError\<close> with that value.
\<close>

theorem grant_type_checked_in_order:
  "(allowInsecureRequestDebug self \<or> isSecure request)
   \<and> contentType request = Some ''application/x-www-form-urlencoded'' \<longrightarrow>
     (param_values request ''grant_type'' = [] \<longrightarrow>
        accept_request self request = Inl (MissingParameterError ''grant_type''))
     \<and> (1 < length (param_values request ''grant_type'') \<longrightarrow>
        accept_request self request = Inl (MultipleParameterError ''grant_type''))
     \<and> (param_values request ''grant_type'' = [Undecodable] \<longrightarrow>
        accept_request self request = Inl (InvalidParameterError ''grant_type''))
     \<and> (\<forall>g. param_values request ''grant_type'' = [Decodes g]
            \<and> g \<notin> set (acceptedGrantTypes self) \<longrightarrow>
          accept_request self request = Inl (UnsupportedGrantTypeError g))"
  by (auto simp: accept_request_def check_grant_type_def split: list.splits)

theorem grant_type_checked_in_order_witness:
  "accept_request
     \<lparr>acceptedGrantTypes = [''refresh_token''], passwordManager = Some (),
      allowInsecureRequestDebug = False\<rparr>
     \<lparr>isSecure = True, contentType = Some ''application/x-www-form-urlencoded'',
      queryArgs = [], bodyArgs = [(''refresh_token'', Decodes ''refreshToken'')]\<rparr>
     = Inl (MissingParameterError ''grant_type'')
   \<and> accept_request
     \<lparr>acceptedGrantTypes = [''refresh_token''], passwordManager = Some (),
      allowInsecureRequestDebug = False\<rparr>
     \<lparr>isSecure = True, contentType = Some ''application/x-www-form-urlencoded'',
      queryArgs = [(''grant_type'', Decodes ''1'')],
      bodyArgs = [(''grant_type'', Decodes ''refresh_token''),
                  (''refresh_token'', Decodes ''refreshToken'')]\<rparr>
     = Inl (MultipleParameterError ''grant_type'')
   \<and> accept_request
     \<lparr>acceptedGrantTypes = [''refresh_token''], passwordManager = Some (),
      allowInsecureRequestDebug = False\<rparr>
     \<lparr>isSecure = True, contentType = Some ''application/x-www-form-urlencoded'',
      queryArgs = [], bodyArgs = [(''grant_type'', Undecodable)]\<rparr>
     = Inl (InvalidParameterError ''grant_type'')
   \<and> accept_request
     \<lparr>acceptedGrantTypes = [''refresh_token''], passwordManager = Some (),
      allowInsecureRequestDebug = False\<rparr>
     \<lparr>isSecure = True, contentType = Some ''application/x-www-form-urlencoded'',
      queryArgs = [], bodyArgs = [(''grant_type'', Decodes ''extendedFunctionalityGrantType'')]\<rparr>
     = Inl (UnsupportedGrantTypeError ''extendedFunctionalityGrantType'')"
  using
    grant_type_checked_in_order
      [of "\<lparr>acceptedGrantTypes = [''refresh_token''], passwordManager = Some (),
            allowInsecureRequestDebug = False\<rparr>"
          "\<lparr>isSecure = True, contentType = Some ''application/x-www-form-urlencoded'',
            queryArgs = [], bodyArgs = [(''refresh_token'', Decodes ''refreshToken'')]\<rparr>"]
    grant_type_checked_in_order
      [of "\<lparr>acceptedGrantTypes = [''refresh_token''], passwordManager = Some (),
            allowInsecureRequestDebug = False\<rparr>"
          "\<lparr>isSecure = True, contentType = Some ''application/x-www-form-urlencoded'',
            queryArgs = [(''grant_type'', Decodes ''1'')],
            bodyArgs = [(''grant_type'', Decodes ''refresh_token''),
                        (''refresh_token'', Decodes ''refreshToken'')]\<rparr>"]
    grant_type_checked_in_order
      [of "\<lparr>acceptedGrantTypes = [''refresh_token''], passwordManager = Some (),
            allowInsecureRequestDebug = False\<rparr>"
          "\<lparr>isSecure = True, contentType = Some ''application/x-www-form-urlencoded'',
            queryArgs = [], bodyArgs = [(''grant_type'', Undecodable)]\<rparr>"]
    grant_type_checked_in_order
      [of "\<lparr>acceptedGrantTypes = [''refresh_token''], passwordManager = Some (),
            allowInsecureRequestDebug = False\<rparr>"
          "\<lparr>isSecure = True, contentType = Some ''application/x-www-form-urlencoded'',
            queryArgs = [],
            bodyArgs = [(''grant_type'', Decodes ''extendedFunctionalityGrantType'')]\<rparr>"]
  by (simp add: param_values_def)

text \<open>
  C7. Construction with the password grant among the enabled grant types and no password
  manager returns the \<^verbatim>\<open>ValueError\<close> and no resource, so the failure precedes any request.
  Construction fails in no other case.
\<close>

theorem password_grant_requires_password_manager:
  "(GrantTypes_value PASSWORD \<in> set (enabledGrantTypes grantTypes) \<longrightarrow>
      (\<exists>msg. TokenResource_init (None :: 'pm option) allowInsecure grantTypes
              = Inl (ValueError msg)))
   \<and> ((\<exists>e. TokenResource_init (pm :: 'pm option) allowInsecure grantTypes = Inl e) \<longleftrightarrow>
        GrantTypes_value PASSWORD \<in> set (enabledGrantTypes grantTypes) \<and> pm = None)"
  by (simp add: TokenResource_init_def)

theorem password_grant_requires_password_manager_witness:
  "GrantTypes_value PASSWORD \<in> set (enabledGrantTypes (Some [Member PASSWORD]))
   \<and> (\<exists>msg. TokenResource_init (None :: unit option) False (Some [Member PASSWORD])
              = Inl (ValueError msg))
   \<and> \<not> (\<exists>e. TokenResource_init (Some ()) False (Some [Member PASSWORD]) = Inl e)"
  using
    password_grant_requires_password_manager
      [of "Some [Member PASSWORD]" False "None :: unit option"]
    password_grant_requires_password_manager
      [of "Some [Member PASSWORD]" False "Some ()"]
  by (simp add: enabledGrantTypes_def)

end
